theory Spec2Isabelle
  imports Main "HOL-Library.Word" "HOL-Library.Signed_Division" "HOL-Library.AList_Mapping"
begin

section \<open>Status codes\<close>

text \<open>
  \<^verbatim>\<open>codes.Code\<close> of the gRPC library is \<^verbatim>\<open>type Code uint32\<close>. The library names
  seventeen values, \<^verbatim>\<open>OK = 0\<close> up to \<^verbatim>\<open>Unauthenticated = 16\<close>; any other 32-bit value
  is still a \<^verbatim>\<open>Code\<close>, and \<^verbatim>\<open>FromJSON\<close> converts whatever number the envelope holds.
\<close>

type_synonym code = "32 word"

definition OK :: code where "OK = 0"
definition Canceled :: code where "Canceled = 1"
definition Unknown :: code where "Unknown = 2"
definition InvalidArgument :: code where "InvalidArgument = 3"
definition DeadlineExceeded :: code where "DeadlineExceeded = 4"
definition NotFound :: code where "NotFound = 5"
definition AlreadyExists :: code where "AlreadyExists = 6"
definition PermissionDenied :: code where "PermissionDenied = 7"
definition ResourceExhausted :: code where "ResourceExhausted = 8"
definition FailedPrecondition :: code where "FailedPrecondition = 9"
definition Aborted :: code where "Aborted = 10"
definition OutOfRange :: code where "OutOfRange = 11"
definition Unimplemented :: code where "Unimplemented = 12"
definition Internal :: code where "Internal = 13"
definition Unavailable :: code where "Unavailable = 14"
definition DataLoss :: code where "DataLoss = 15"
definition Unauthenticated :: code where "Unauthenticated = 16"

text \<open>The closed set of named status codes, in numeric order.\<close>

definition status_codes :: "code list" where
  "status_codes =
     [OK, Canceled, Unknown, InvalidArgument, DeadlineExceeded, NotFound, AlreadyExists,
      PermissionDenied, ResourceExhausted, FailedPrecondition, Aborted, OutOfRange,
      Unimplemented, Internal, Unavailable, DataLoss, Unauthenticated]"

text \<open>\<^verbatim>\<open>strconv.FormatInt(n, 10)\<close> for a number that is not negative.\<close>

fun FormatInt :: "nat \<Rightarrow> string" where
  "FormatInt n =
     (if n < 10 then [''0123456789'' ! n]
      else FormatInt (n div 10) @ [''0123456789'' ! (n mod 10)])"

text \<open>
  \<^verbatim>\<open>Code.String\<close>: the display name of a named code, and \<^verbatim>\<open>Code(<n>)\<close> with the
  number in decimal for every other value.
\<close>

definition Code_String :: "code \<Rightarrow> string" where
  "Code_String c =
     (if c = OK then ''OK''
      else if c = Canceled then ''Canceled''
      else if c = Unknown then ''Unknown''
      else if c = InvalidArgument then ''InvalidArgument''
      else if c = DeadlineExceeded then ''DeadlineExceeded''
      else if c = NotFound then ''NotFound''
      else if c = AlreadyExists then ''AlreadyExists''
      else if c = PermissionDenied then ''PermissionDenied''
      else if c = ResourceExhausted then ''ResourceExhausted''
      else if c = FailedPrecondition then ''FailedPrecondition''
      else if c = Aborted then ''Aborted''
      else if c = OutOfRange then ''OutOfRange''
      else if c = Unimplemented then ''Unimplemented''
      else if c = Internal then ''Internal''
      else if c = Unavailable then ''Unavailable''
      else if c = DataLoss then ''DataLoss''
      else if c = Unauthenticated then ''Unauthenticated''
      else ''Code('' @ FormatInt (unat c) @ '')'')"

section \<open>Durations\<close>

text \<open>
  \<^verbatim>\<open>time.Duration\<close> is an \<^verbatim>\<open>int64\<close> count of nanoseconds. Go's integer division
  truncates towards zero.
\<close>

type_synonym duration = "64 word"

definition go_div :: "64 word \<Rightarrow> 64 word \<Rightarrow> 64 word" where
  "go_div a b = word_of_int (sint a sdiv sint b)"

definition Second :: duration where "Second = 1000000000"
definition Minute :: duration where "Minute = 60 * Second"

text \<open>The protobuf \<^verbatim>\<open>Duration\<close> message: \<^verbatim>\<open>int64\<close> seconds and \<^verbatim>\<open>int32\<close> nanoseconds.\<close>

datatype pb_Duration = pb_Duration (Seconds: "64 word") (Nanos: "32 word")

text \<open>\<^verbatim>\<open>durationpb.New\<close> splits a duration into whole seconds and the remaining nanoseconds.\<close>

definition durationpb_New :: "duration \<Rightarrow> pb_Duration" where
  "durationpb_New d =
     (let nanos = d;
          secs = go_div nanos 1000000000;
          nanos = nanos - secs * 1000000000
      in pb_Duration secs (ucast nanos))"

text \<open>
  \<^verbatim>\<open>(*Duration).AsDuration\<close>, with its saturation on overflow. The receiver may be a nil
  pointer (\<open>None\<close>), whose getters return zero.
\<close>

definition AsDuration :: "pb_Duration option \<Rightarrow> duration" where
  "AsDuration x =
     (let secs = (case x of None \<Rightarrow> 0 | Some m \<Rightarrow> Seconds m);
          nanos = (case x of None \<Rightarrow> 0 | Some m \<Rightarrow> Nanos m);
          d = secs * Second;
          overflow = (go_div d Second \<noteq> secs);
          d = d + scast nanos;
          overflow = (overflow \<or> (secs <s 0 \<and> nanos <s 0 \<and> 0 <s d));
          overflow = (overflow \<or> (0 <s secs \<and> 0 <s nanos \<and> d <s 0))
      in if overflow \<and> secs <s 0 then word_of_int (- (2 ^ 63))
         else if overflow \<and> 0 <s secs then word_of_int (2 ^ 63 - 1)
         else d)"

section \<open>The detail messages of \<^verbatim>\<open>google.rpc\<close>\<close>

datatype rpc_BadRequest_FieldViolation =
  rpc_BadRequest_FieldViolation (fv_Field: string) (fv_Description: string)

datatype rpc_BadRequest =
  rpc_BadRequest (FieldViolations: "rpc_BadRequest_FieldViolation list")

datatype rpc_DebugInfo =
  rpc_DebugInfo (StackEntries: "string list") (Detail: string)

datatype rpc_ErrorInfo =
  rpc_ErrorInfo (Reason: string) (Domain: string) (Metadata: "(string, string) mapping")

datatype rpc_Help_Link =
  rpc_Help_Link (hl_Description: string) (hl_Url: string)

datatype rpc_Help =
  rpc_Help (Links: "rpc_Help_Link list")

datatype rpc_LocalizedMessage =
  rpc_LocalizedMessage (Locale: string) (Message: string)

datatype rpc_PreconditionFailure_Violation =
  rpc_PreconditionFailure_Violation (pv_Type: string) (pv_Subject: string) (pv_Description: string)

datatype rpc_PreconditionFailure =
  rpc_PreconditionFailure (pf_Violations: "rpc_PreconditionFailure_Violation list")

datatype rpc_QuotaFailure_Violation =
  rpc_QuotaFailure_Violation (qv_Subject: string) (qv_Description: string)

datatype rpc_QuotaFailure =
  rpc_QuotaFailure (qf_Violations: "rpc_QuotaFailure_Violation list")

datatype rpc_RequestInfo =
  rpc_RequestInfo (RequestId: string) (ServingData: string)

datatype rpc_ResourceInfo =
  rpc_ResourceInfo (ResourceType: string) (ResourceName: string) (Owner: string)
    (ri_Description: string)

datatype rpc_RetryInfo =
  rpc_RetryInfo (RetryDelay_field: "pb_Duration option")

text \<open>
  A value of the interface \<^verbatim>\<open>protoreflect.ProtoMessage\<close>, by its dynamic type: one of the
  ten detail messages above, or a message of any other registered type, given by its full
  name and its content.
\<close>

datatype proto_message =
    M_BadRequest rpc_BadRequest
  | M_DebugInfo rpc_DebugInfo
  | M_ErrorInfo rpc_ErrorInfo
  | M_Help rpc_Help
  | M_LocalizedMessage rpc_LocalizedMessage
  | M_PreconditionFailure rpc_PreconditionFailure
  | M_QuotaFailure rpc_QuotaFailure
  | M_RequestInfo rpc_RequestInfo
  | M_ResourceInfo rpc_ResourceInfo
  | M_RetryInfo rpc_RetryInfo
  | M_Other string string

section \<open>Error values\<close>

text \<open>
  A Go \<^verbatim>\<open>error\<close> of this package, by its dynamic type: the value of \<^verbatim>\<open>errors.New\<close>
  (\<open>errorString\<close>, the root of a chain) or one of the package's layers, each holding the
  error it wraps (its embedded \<^verbatim>\<open>error\<close> field) and its own payload. The values are not
  nil, and they carry no pointer identity.
\<close>

datatype err =
    errorString string
  | errCodeError err code
  | errRequestInfo err rpc_RequestInfo
  | errHelpLink err rpc_Help
  | errBadRequest err rpc_BadRequest
  | errDebugInfo err rpc_DebugInfo
  | errInfo err rpc_ErrorInfo
  | localizedError err rpc_LocalizedMessage
  | errPreconditionFailed err rpc_PreconditionFailure
  | errQuotaFailure err rpc_QuotaFailure
  | errResourceInfo err rpc_ResourceInfo
  | errRetryInfo err rpc_RetryInfo
  | arbitraryError err proto_message

definition errors_New :: "string \<Rightarrow> err" where
  "errors_New text = errorString text"

definition errUnknown :: err where
  "errUnknown = errors_New ''unknown error''"

text \<open>
  \<^verbatim>\<open>errors.Unwrap\<close>: every layer of the package has an \<^verbatim>\<open>Unwrap\<close> method returning its
  embedded error; the value of \<^verbatim>\<open>errors.New\<close> has none.
\<close>

fun errors_Unwrap :: "err \<Rightarrow> err option" where
  "errors_Unwrap (errorString s) = None"
| "errors_Unwrap (errCodeError e c) = Some e"
| "errors_Unwrap (errRequestInfo e m) = Some e"
| "errors_Unwrap (errHelpLink e m) = Some e"
| "errors_Unwrap (errBadRequest e m) = Some e"
| "errors_Unwrap (errDebugInfo e m) = Some e"
| "errors_Unwrap (errInfo e m) = Some e"
| "errors_Unwrap (localizedError e m) = Some e"
| "errors_Unwrap (errPreconditionFailed e m) = Some e"
| "errors_Unwrap (errQuotaFailure e m) = Some e"
| "errors_Unwrap (errResourceInfo e m) = Some e"
| "errors_Unwrap (errRetryInfo e m) = Some e"
| "errors_Unwrap (arbitraryError e m) = Some e"

text \<open>
  The method \<^verbatim>\<open>Error\<close>. Only \<open>errCodeError\<close> defines its own, prefixing the code's name;
  every other layer inherits the method of its embedded error.
\<close>

fun Error :: "err \<Rightarrow> string" where
  "Error (errorString s) = s"
| "Error (errCodeError e c) = Code_String c @ '': '' @ Error e"
| "Error (errRequestInfo e m) = Error e"
| "Error (errHelpLink e m) = Error e"
| "Error (errBadRequest e m) = Error e"
| "Error (errDebugInfo e m) = Error e"
| "Error (errInfo e m) = Error e"
| "Error (localizedError e m) = Error e"
| "Error (errPreconditionFailed e m) = Error e"
| "Error (errQuotaFailure e m) = Error e"
| "Error (errResourceInfo e m) = Error e"
| "Error (errRetryInfo e m) = Error e"
| "Error (arbitraryError e m) = Error e"

text \<open>
  The type assertion \<^verbatim>\<open>from.(protoreflect.ProtoMessage)\<close>: a layer that embeds a message
  has the message's \<^verbatim>\<open>ProtoReflect\<close> method and so is itself a \<^verbatim>\<open>ProtoMessage\<close>, standing
  for the embedded message.
\<close>

fun as_ProtoMessage :: "err \<Rightarrow> proto_message option" where
  "as_ProtoMessage (errorString s) = None"
| "as_ProtoMessage (errCodeError e c) = None"
| "as_ProtoMessage (errRequestInfo e m) = Some (M_RequestInfo m)"
| "as_ProtoMessage (errHelpLink e m) = Some (M_Help m)"
| "as_ProtoMessage (errBadRequest e m) = Some (M_BadRequest m)"
| "as_ProtoMessage (errDebugInfo e m) = Some (M_DebugInfo m)"
| "as_ProtoMessage (errInfo e m) = Some (M_ErrorInfo m)"
| "as_ProtoMessage (localizedError e m) = Some (M_LocalizedMessage m)"
| "as_ProtoMessage (errPreconditionFailed e m) = Some (M_PreconditionFailure m)"
| "as_ProtoMessage (errQuotaFailure e m) = Some (M_QuotaFailure m)"
| "as_ProtoMessage (errResourceInfo e m) = Some (M_ResourceInfo m)"
| "as_ProtoMessage (errRetryInfo e m) = Some (M_RetryInfo m)"
| "as_ProtoMessage (arbitraryError e m) = Some m"

section \<open>Wrapping\<close>

text \<open>
  \<^verbatim>\<open>Details\<close> is the interface with the one method \<^verbatim>\<open>Wrap(error) error\<close>; the package
  implements it by \<^verbatim>\<open>wrapperFunc\<close>, a function from errors to errors.
\<close>

datatype Details = wrapperFunc "err \<Rightarrow> err"

fun Wrap :: "Details \<Rightarrow> err \<Rightarrow> err" where
  "Wrap (wrapperFunc fn) err = fn err"

fun WithDetails :: "err \<Rightarrow> Details list \<Rightarrow> err" where
  "WithDetails err [] = err"
| "WithDetails err (wrapper # details) = WithDetails (Wrap wrapper err) details"

definition Code :: "code \<Rightarrow> Details" where
  "Code code = wrapperFunc (\<lambda>err. errCodeError err code)"

definition New :: "code \<Rightarrow> string \<Rightarrow> Details list \<Rightarrow> err" where
  "New code msg details = WithDetails (errCodeError (errors_New msg) code) details"

subsection \<open>The sentinels\<close>

definition ErrCanceled :: err where "ErrCanceled = errCodeError errUnknown Canceled"
definition ErrUnknown :: err where "ErrUnknown = errCodeError errUnknown Unknown"
definition ErrInvalidArgument :: err where
  "ErrInvalidArgument = errCodeError errUnknown InvalidArgument"
definition ErrDeadlineExceeded :: err where
  "ErrDeadlineExceeded = errCodeError errUnknown DeadlineExceeded"
definition ErrNotFound :: err where
  "ErrNotFound = errCodeError errUnknown NotFound"
definition ErrAlreadyExists :: err where
  "ErrAlreadyExists = errCodeError errUnknown AlreadyExists"
definition ErrPermissionDenied :: err where
  "ErrPermissionDenied = errCodeError errUnknown PermissionDenied"
definition ErrResourceExhausted :: err where
  "ErrResourceExhausted = errCodeError errUnknown ResourceExhausted"
definition ErrFailedPrecondition :: err where
  "ErrFailedPrecondition = errCodeError errUnknown FailedPrecondition"
definition ErrAborted :: err where "ErrAborted = errCodeError errUnknown Aborted"
definition ErrOutOfRange :: err where "ErrOutOfRange = errCodeError errUnknown OutOfRange"
definition ErrUnimplemented :: err where
  "ErrUnimplemented = errCodeError errUnknown Unimplemented"
definition ErrInternal :: err where "ErrInternal = errCodeError errUnknown Internal"
definition ErrUnavailable :: err where
  "ErrUnavailable = errCodeError errUnknown Unavailable"
definition ErrDataLoss :: err where "ErrDataLoss = errCodeError errUnknown DataLoss"
definition ErrUnauthenticated :: err where
  "ErrUnauthenticated = errCodeError errUnknown Unauthenticated"

text \<open>The exported sentinel variables of the package, in the order they are declared.\<close>

definition sentinels :: "err list" where
  "sentinels =
     [ErrCanceled, ErrUnknown, ErrInvalidArgument, ErrDeadlineExceeded, ErrNotFound,
      ErrAlreadyExists, ErrPermissionDenied, ErrResourceExhausted, ErrFailedPrecondition,
      ErrAborted, ErrOutOfRange, ErrUnimplemented, ErrInternal, ErrUnavailable, ErrDataLoss,
      ErrUnauthenticated]"

text \<open>The sentinels declared for a code: those whose \<^verbatim>\<open>Code\<close> field is that code.\<close>

definition sentinels_for :: "code \<Rightarrow> err list" where
  "sentinels_for c =
     filter (\<lambda>s. case s of errCodeError e c' \<Rightarrow> c' = c | _ \<Rightarrow> False) sentinels"

section \<open>\<^verbatim>\<open>errors.Is\<close> and \<^verbatim>\<open>errors.As\<close>\<close>

text \<open>
  Go compares two errors, and two messages, as pointers. The values of this model carry
  no identity: two values that differ are different pointers, and two equal values may or
  may not be the same pointer. A comparison therefore answers \<open>Some False\<close> or \<open>None\<close>
  (undetermined), and \<open>or3\<close> is the disjunction over such answers.
\<close>

definition same_pointer :: "'a \<Rightarrow> 'a \<Rightarrow> bool option" where
  "same_pointer x y = (if x = y then None else Some False)"

definition or3 :: "bool option \<Rightarrow> bool option \<Rightarrow> bool option" where
  "or3 a b =
     (if a = Some True \<or> b = Some True then Some True
      else if a = None \<or> b = None then None
      else Some False)"

text \<open>\<^verbatim>\<open>(*errCodeError).Is\<close>, for a receiver with the code \<open>e_Code\<close>.\<close>

definition errCodeError_Is :: "code \<Rightarrow> err \<Rightarrow> bool" where
  "errCodeError_Is e_Code target =
     (case target of errCodeError v v_Code \<Rightarrow> v_Code = e_Code | _ \<Rightarrow> False)"

text \<open>\<^verbatim>\<open>(*arbitraryError).Is\<close>, for a receiver with the message \<open>ProtoMessage\<close>.\<close>

definition arbitraryError_Is :: "proto_message \<Rightarrow> err \<Rightarrow> bool option" where
  "arbitraryError_Is ProtoMessage target =
     (case as_ProtoMessage target of
        Some v \<Rightarrow> same_pointer v ProtoMessage
      | None \<Rightarrow> Some False)"

text \<open>The \<^verbatim>\<open>Is\<close> method of a layer; a layer without one matches nothing.\<close>

fun Is_method :: "err \<Rightarrow> err \<Rightarrow> bool option" where
  "Is_method (errCodeError e c) target = Some (errCodeError_Is c target)"
| "Is_method (arbitraryError e m) target = arbitraryError_Is m target"
| "Is_method _ target = Some False"

text \<open>
  \<^verbatim>\<open>errors.Is\<close>: at each layer, outermost first, the layer is the target itself or its
  \<^verbatim>\<open>Is\<close> method accepts the target; otherwise the walk goes on with \<^verbatim>\<open>Unwrap\<close>.
\<close>

function errors_Is :: "err \<Rightarrow> err \<Rightarrow> bool option" where
  "errors_Is err target =
     or3 (or3 (same_pointer err target) (Is_method err target))
       (case errors_Unwrap err of
          None \<Rightarrow> Some False
        | Some next \<Rightarrow> errors_Is next target)"
  by pat_completeness auto
termination
  by (relation "measure (\<lambda>(err, target). size err)") (auto elim!: errors_Unwrap.elims)

text \<open>
  \<^verbatim>\<open>errors.As\<close> for a target of interface type: the first layer, outermost first, whose
  dynamic type implements the interface. No layer of the package has an \<^verbatim>\<open>As\<close> method.
  The interface is given by the predicate that says which values implement it.
\<close>

function errors_As :: "(err \<Rightarrow> bool) \<Rightarrow> err \<Rightarrow> err option" where
  "errors_As implements err =
     (if implements err then Some err
      else case errors_Unwrap err of
             None \<Rightarrow> None
           | Some next \<Rightarrow> errors_As implements next)"
  by pat_completeness auto
termination
  by (relation "measure (\<lambda>(implements, err). size err)") (auto elim!: errors_Unwrap.elims)

text \<open>
  The interfaces: \<^verbatim>\<open>statusError\<close> asks for \<^verbatim>\<open>GRPCStatus\<close>, which only \<open>errCodeError\<close> has;
  \<^verbatim>\<open>RetriableError\<close> asks for \<^verbatim>\<open>WithDelay\<close> and \<^verbatim>\<open>GetRetryDelay\<close> (\<open>errRetryInfo\<close>);
  \<^verbatim>\<open>FailedQuotaError\<close> asks for \<^verbatim>\<open>WithViolation\<close> and \<^verbatim>\<open>GetViolations\<close> over quota
  violations (\<open>errQuotaFailure\<close>); \<^verbatim>\<open>BadRequestError\<close> asks for them over field violations
  (\<open>errBadRequest\<close>); \<^verbatim>\<open>HelpfulError\<close> asks for \<^verbatim>\<open>WithLinks\<close> and \<^verbatim>\<open>GetLinks\<close>
  (\<open>errHelpLink\<close>).
\<close>

definition statusError :: "err \<Rightarrow> bool" where
  "statusError e = (case e of errCodeError _ _ \<Rightarrow> True | _ \<Rightarrow> False)"

definition RetriableError :: "err \<Rightarrow> bool" where
  "RetriableError e = (case e of errRetryInfo _ _ \<Rightarrow> True | _ \<Rightarrow> False)"

definition FailedQuotaError :: "err \<Rightarrow> bool" where
  "FailedQuotaError e = (case e of errQuotaFailure _ _ \<Rightarrow> True | _ \<Rightarrow> False)"

definition BadRequestError :: "err \<Rightarrow> bool" where
  "BadRequestError e = (case e of errBadRequest _ _ \<Rightarrow> True | _ \<Rightarrow> False)"

definition HelpfulError :: "err \<Rightarrow> bool" where
  "HelpfulError e = (case e of errHelpLink _ _ \<Rightarrow> True | _ \<Rightarrow> False)"

section \<open>The detail wrappers\<close>

text \<open>
  A value of the interface \<^verbatim>\<open>details.FieldViolation\<close>: the message type
  \<^verbatim>\<open>*errdetails.BadRequest_FieldViolation\<close> itself, or any other implementation, given by
  what its getters \<^verbatim>\<open>GetField\<close> and \<^verbatim>\<open>GetDescription\<close> return. The other
  interfaces of the package \<^verbatim>\<open>details\<close> are modelled the same way.
\<close>

datatype FieldViolation =
    FieldViolation_pb rpc_BadRequest_FieldViolation
  | FieldViolation_impl string string

fun FieldViolation_GetField :: "FieldViolation \<Rightarrow> string" where
  "FieldViolation_GetField (FieldViolation_pb v) = fv_Field v"
| "FieldViolation_GetField (FieldViolation_impl field description) = field"

fun FieldViolation_GetDescription :: "FieldViolation \<Rightarrow> string" where
  "FieldViolation_GetDescription (FieldViolation_pb v) = fv_Description v"
| "FieldViolation_GetDescription (FieldViolation_impl field description) = description"

datatype HelpLink =
    HelpLink_pb rpc_Help_Link
  | HelpLink_impl string string

fun HelpLink_GetUrl :: "HelpLink \<Rightarrow> string" where
  "HelpLink_GetUrl (HelpLink_pb v) = hl_Url v"
| "HelpLink_GetUrl (HelpLink_impl url description) = url"

fun HelpLink_GetDescription :: "HelpLink \<Rightarrow> string" where
  "HelpLink_GetDescription (HelpLink_pb v) = hl_Description v"
| "HelpLink_GetDescription (HelpLink_impl url description) = description"

datatype QuotaViolation =
    QuotaViolation_pb rpc_QuotaFailure_Violation
  | QuotaViolation_impl string string

fun QuotaViolation_GetSubject :: "QuotaViolation \<Rightarrow> string" where
  "QuotaViolation_GetSubject (QuotaViolation_pb v) = qv_Subject v"
| "QuotaViolation_GetSubject (QuotaViolation_impl subject description) = subject"

fun QuotaViolation_GetDescription :: "QuotaViolation \<Rightarrow> string" where
  "QuotaViolation_GetDescription (QuotaViolation_pb v) = qv_Description v"
| "QuotaViolation_GetDescription (QuotaViolation_impl subject description) = description"

text \<open>
  The methods of \<^verbatim>\<open>*errBadRequest\<close>. \<^verbatim>\<open>WithViolation\<close> appends to the receiver's message
  in place and returns the receiver; the model returns the layer with the longer list.
\<close>

fun errBadRequest_WithViolation :: "err \<Rightarrow> FieldViolation list \<Rightarrow> err" where
  "errBadRequest_WithViolation (errBadRequest e m) violations =
     (let v = map (\<lambda>fieldViolation.
                case fieldViolation of
                  FieldViolation_pb violation \<Rightarrow> violation
                | _ \<Rightarrow> rpc_BadRequest_FieldViolation (FieldViolation_GetField fieldViolation)
                         (FieldViolation_GetDescription fieldViolation)) violations
      in errBadRequest e (rpc_BadRequest (FieldViolations m @ v)))"

fun errBadRequest_GetViolations :: "err \<Rightarrow> FieldViolation list" where
  "errBadRequest_GetViolations (errBadRequest e m) = map FieldViolation_pb (FieldViolations m)"

definition WithBadRequest :: "err \<Rightarrow> FieldViolation list \<Rightarrow> err" where
  "WithBadRequest err violations =
     (let v = [];
          req = errBadRequest err (rpc_BadRequest v)
      in errBadRequest_WithViolation req violations)"

definition BadRequest :: "FieldViolation list \<Rightarrow> Details" where
  "BadRequest violations = wrapperFunc (\<lambda>err. WithBadRequest err violations)"

text \<open>The methods of \<^verbatim>\<open>*errHelpLink\<close>.\<close>

fun WithLinks :: "err \<Rightarrow> HelpLink list \<Rightarrow> err" where
  "WithLinks (errHelpLink e m) links =
     (let v = map (\<lambda>link.
                case link of
                  HelpLink_pb helpLink \<Rightarrow> helpLink
                | _ \<Rightarrow> rpc_Help_Link (HelpLink_GetDescription link) (HelpLink_GetUrl link)) links
      in errHelpLink e (rpc_Help (Links m @ v)))"

fun GetLinks :: "err \<Rightarrow> HelpLink list" where
  "GetLinks (errHelpLink e m) = map HelpLink_pb (Links m)"

definition WithHelp :: "err \<Rightarrow> HelpLink list \<Rightarrow> err" where
  "WithHelp err links =
     (let v = [];
          req = errHelpLink err (rpc_Help v)
      in WithLinks req links)"

definition Help :: "HelpLink list \<Rightarrow> Details" where
  "Help links = wrapperFunc (\<lambda>err. WithHelp err links)"

text \<open>The methods of \<^verbatim>\<open>*errQuotaFailure\<close>.\<close>

fun errQuotaFailure_WithViolation :: "err \<Rightarrow> QuotaViolation list \<Rightarrow> err" where
  "errQuotaFailure_WithViolation (errQuotaFailure e m) violations =
     (let v = map (\<lambda>fieldViolation.
                case fieldViolation of
                  QuotaViolation_pb violation \<Rightarrow> violation
                | _ \<Rightarrow> rpc_QuotaFailure_Violation (QuotaViolation_GetSubject fieldViolation)
                         (QuotaViolation_GetDescription fieldViolation)) violations
      in errQuotaFailure e (rpc_QuotaFailure (qf_Violations m @ v)))"

fun errQuotaFailure_GetViolations :: "err \<Rightarrow> QuotaViolation list" where
  "errQuotaFailure_GetViolations (errQuotaFailure e m) = map QuotaViolation_pb (qf_Violations m)"

definition WithQuotaFailure :: "err \<Rightarrow> QuotaViolation list \<Rightarrow> err" where
  "WithQuotaFailure err violations =
     (let details = rpc_QuotaFailure [];
          wrapped = errQuotaFailure err details
      in errQuotaFailure_WithViolation wrapped violations)"

definition QuotaFailure :: "QuotaViolation list \<Rightarrow> Details" where
  "QuotaFailure violations = wrapperFunc (\<lambda>err. WithQuotaFailure err violations)"

text \<open>The methods of \<^verbatim>\<open>*errRetryInfo\<close>; \<^verbatim>\<open>WithDelay\<close> replaces the stored delay.\<close>

fun WithDelay :: "err \<Rightarrow> duration \<Rightarrow> err" where
  "WithDelay (errRetryInfo e m) d = errRetryInfo e (rpc_RetryInfo (Some (durationpb_New d)))"

fun GetRetryDelay :: "err \<Rightarrow> duration" where
  "GetRetryDelay (errRetryInfo e m) = AsDuration (RetryDelay_field m)"

definition WithRetryDelay :: "err \<Rightarrow> duration \<Rightarrow> err" where
  "WithRetryDelay err delay = errRetryInfo err (rpc_RetryInfo (Some (durationpb_New delay)))"

definition RetryDelay :: "duration \<Rightarrow> Details" where
  "RetryDelay delay = wrapperFunc (\<lambda>err. WithRetryDelay err delay)"

text \<open>The methods of \<^verbatim>\<open>*errPreconditionFailed\<close>.\<close>

datatype PreconditionViolation =
    PreconditionViolation_pb rpc_PreconditionFailure_Violation
  | PreconditionViolation_impl string string string

fun PreconditionViolation_GetType :: "PreconditionViolation \<Rightarrow> string" where
  "PreconditionViolation_GetType (PreconditionViolation_pb v) = pv_Type v"
| "PreconditionViolation_GetType (PreconditionViolation_impl type subject description) = type"

fun PreconditionViolation_GetSubject :: "PreconditionViolation \<Rightarrow> string" where
  "PreconditionViolation_GetSubject (PreconditionViolation_pb v) = pv_Subject v"
| "PreconditionViolation_GetSubject (PreconditionViolation_impl type subject description) =
     subject"

fun PreconditionViolation_GetDescription :: "PreconditionViolation \<Rightarrow> string" where
  "PreconditionViolation_GetDescription (PreconditionViolation_pb v) = pv_Description v"
| "PreconditionViolation_GetDescription (PreconditionViolation_impl type subject description) =
     description"

fun errPreconditionFailed_WithViolation :: "err \<Rightarrow> PreconditionViolation list \<Rightarrow> err" where
  "errPreconditionFailed_WithViolation (errPreconditionFailed e m) violations =
     (let v = map (\<lambda>fieldViolation.
                case fieldViolation of
                  PreconditionViolation_pb violation \<Rightarrow> violation
                | _ \<Rightarrow> rpc_PreconditionFailure_Violation
                         (PreconditionViolation_GetType fieldViolation)
                         (PreconditionViolation_GetSubject fieldViolation)
                         (PreconditionViolation_GetDescription fieldViolation)) violations
      in errPreconditionFailed e (rpc_PreconditionFailure (pf_Violations m @ v)))"

fun errPreconditionFailed_GetViolations :: "err \<Rightarrow> PreconditionViolation list" where
  "errPreconditionFailed_GetViolations (errPreconditionFailed e m) =
     map PreconditionViolation_pb (pf_Violations m)"

definition WithPreconditionFailure :: "err \<Rightarrow> PreconditionViolation list \<Rightarrow> err" where
  "WithPreconditionFailure err violations =
     (let details = rpc_PreconditionFailure [];
          wrapped = errPreconditionFailed err details
      in errPreconditionFailed_WithViolation wrapped violations)"

definition PreconditionFailure :: "PreconditionViolation list \<Rightarrow> Details" where
  "PreconditionFailure violations = wrapperFunc (\<lambda>err. WithPreconditionFailure err violations)"

text \<open>
  The wrappers of a single message. Each takes a value of an interface of the package
  \<^verbatim>\<open>details\<close>: the message type itself, which is stored as it is, or another
  implementation, from whose getters a new message is built.
\<close>

datatype details_RequestInfo =
    RequestInfo_pb rpc_RequestInfo
  | RequestInfo_impl string string

definition WithRequestInfo :: "err \<Rightarrow> details_RequestInfo \<Rightarrow> err" where
  "WithRequestInfo err info =
     (let details = (case info of
                       RequestInfo_pb details \<Rightarrow> details
                     | RequestInfo_impl requestId servingData \<Rightarrow>
                         rpc_RequestInfo requestId servingData)
      in errRequestInfo err details)"

definition RequestInfo :: "details_RequestInfo \<Rightarrow> Details" where
  "RequestInfo info = wrapperFunc (\<lambda>err. WithRequestInfo err info)"

datatype details_DebugInfo =
    DebugInfo_pb rpc_DebugInfo
  | DebugInfo_impl "string list" string

definition WithDebug :: "err \<Rightarrow> details_DebugInfo \<Rightarrow> err" where
  "WithDebug err info =
     (let details = (case info of
                       DebugInfo_pb details \<Rightarrow> details
                     | DebugInfo_impl stackEntries detail \<Rightarrow>
                         rpc_DebugInfo stackEntries detail)
      in errDebugInfo err details)"

definition Debug :: "details_DebugInfo \<Rightarrow> Details" where
  "Debug info = wrapperFunc (\<lambda>err. WithDebug err info)"

datatype details_Info =
    Info_pb rpc_ErrorInfo
  | Info_impl string string "(string, string) mapping"

definition WithCause :: "err \<Rightarrow> details_Info \<Rightarrow> err" where
  "WithCause err info =
     (let details = (case info of
                       Info_pb details \<Rightarrow> details
                     | Info_impl reason domain metadata \<Rightarrow>
                         rpc_ErrorInfo reason domain metadata)
      in errInfo err details)"

definition Cause :: "details_Info \<Rightarrow> Details" where
  "Cause info = wrapperFunc (\<lambda>err. WithCause err info)"

datatype details_LocalizedMessage =
    LocalizedMessage_pb rpc_LocalizedMessage
  | LocalizedMessage_impl string string

definition WithLocalizedMessage :: "err \<Rightarrow> details_LocalizedMessage \<Rightarrow> err" where
  "WithLocalizedMessage err msg =
     (let details = (case msg of
                       LocalizedMessage_pb details \<Rightarrow> details
                     | LocalizedMessage_impl locale message \<Rightarrow>
                         rpc_LocalizedMessage locale message)
      in localizedError err details)"

definition LocalizedMessage :: "details_LocalizedMessage \<Rightarrow> Details" where
  "LocalizedMessage msg = wrapperFunc (\<lambda>err. WithLocalizedMessage err msg)"

datatype details_ResourceInfo =
    ResourceInfo_pb rpc_ResourceInfo
  | ResourceInfo_impl string string string string

definition WithResource :: "err \<Rightarrow> details_ResourceInfo \<Rightarrow> err" where
  "WithResource err info =
     (let details = (case info of
                       ResourceInfo_pb details \<Rightarrow> details
                     | ResourceInfo_impl resourceType resourceName owner description \<Rightarrow>
                         rpc_ResourceInfo resourceType resourceName owner description)
      in errResourceInfo err details)"

definition Resource :: "details_ResourceInfo \<Rightarrow> Details" where
  "Resource info = wrapperFunc (\<lambda>err. WithResource err info)"

section \<open>The envelope and its codec\<close>

text \<open>
  The envelope is the message \<^verbatim>\<open>statuspb.Status\<close>: an \<^verbatim>\<open>int32\<close> code, a message and a list
  of \<^verbatim>\<open>Any\<close> values. Converting a \<^verbatim>\<open>codes.Code\<close> to \<^verbatim>\<open>int32\<close> and back keeps its 32 bits.
\<close>

datatype 'a Status =
  Status (Status_Code: "32 word") (Status_Message: string) (Status_Details: "'a list")

text \<open>An error returned by the reader or by one of the library's encoders and decoders.\<close>

datatype failure = Failure string

text \<open>
  The wire codec is the protobuf library, outside this package: \<^verbatim>\<open>anypb.New\<close> packs a
  message into an \<^verbatim>\<open>Any\<close> (type \<open>'a\<close>), \<^verbatim>\<open>anypb.UnmarshalNew\<close> unpacks one,
  \<^verbatim>\<open>protojson.Marshal\<close> writes an envelope as JSON text (type \<open>'w\<close>) and
  \<^verbatim>\<open>protojson.Unmarshal\<close> reads one. Each of them may fail. They are parameters of the
  model.
\<close>

record ('a, 'w) codec =
  anypb_New :: "proto_message \<Rightarrow> failure + 'a"
  anypb_UnmarshalNew :: "'a \<Rightarrow> failure + proto_message"
  protojson_Marshal :: "'a Status \<Rightarrow> failure + 'w"
  protojson_Unmarshal :: "'w \<Rightarrow> failure + 'a Status"

text \<open>
  A codec loses nothing when unpacking gives back the message that was packed, and reading
  gives back the envelope that was written.
\<close>

definition lossless :: "('a, 'w) codec \<Rightarrow> bool" where
  "lossless cd \<longleftrightarrow>
     (\<forall>m a. anypb_New cd m = Inr a \<longrightarrow> anypb_UnmarshalNew cd a = Inr m) \<and>
     (\<forall>p w. protojson_Marshal cd p = Inr w \<longrightarrow> protojson_Unmarshal cd w = Inr p)"

text \<open>
  A concrete codec, to run the functions on concrete inputs. Its \<^verbatim>\<open>Any\<close> holds the type
  URL and the message; unpacking fails when the URL does not name the message's type. Its
  JSON text is the envelope itself.
\<close>

datatype Any = Any (TypeUrl: string) (Value: proto_message)

fun FullName :: "proto_message \<Rightarrow> string" where
  "FullName (M_BadRequest m) = ''google.rpc.BadRequest''"
| "FullName (M_DebugInfo m) = ''google.rpc.DebugInfo''"
| "FullName (M_ErrorInfo m) = ''google.rpc.ErrorInfo''"
| "FullName (M_Help m) = ''google.rpc.Help''"
| "FullName (M_LocalizedMessage m) = ''google.rpc.LocalizedMessage''"
| "FullName (M_PreconditionFailure m) = ''google.rpc.PreconditionFailure''"
| "FullName (M_QuotaFailure m) = ''google.rpc.QuotaFailure''"
| "FullName (M_RequestInfo m) = ''google.rpc.RequestInfo''"
| "FullName (M_ResourceInfo m) = ''google.rpc.ResourceInfo''"
| "FullName (M_RetryInfo m) = ''google.rpc.RetryInfo''"
| "FullName (M_Other name content) = name"

definition plain_codec :: "(Any, Any Status) codec" where
  "plain_codec =
     \<lparr> anypb_New = (\<lambda>m. Inr (Any (''type.googleapis.com/'' @ FullName m) m)),
       anypb_UnmarshalNew = (\<lambda>a.
         if TypeUrl a = ''type.googleapis.com/'' @ FullName (Value a) then Inr (Value a)
         else Inl (Failure ''unknown type'')),
       protojson_Marshal = Inr,
       protojson_Unmarshal = Inr \<rparr>"

section \<open>Serializing: \<^verbatim>\<open>ToJSON\<close>\<close>

definition status_New :: "code \<Rightarrow> string \<Rightarrow> 'a Status" where
  "status_New c msg = Status c msg []"

text \<open>\<^verbatim>\<open>GRPCStatus\<close> is a method of \<open>errCodeError\<close> alone.\<close>

fun GRPCStatus :: "err \<Rightarrow> 'a Status option" where
  "GRPCStatus (errCodeError e c) = Some (status_New c (Error (errCodeError e c)))"
| "GRPCStatus _ = None"

text \<open>
  \<^verbatim>\<open>status.Convert(err).Proto()\<close>: the status an error describes itself to be, and the
  unknown code with the error's text for an error without \<^verbatim>\<open>GRPCStatus\<close>.
\<close>

definition status_Convert :: "err \<Rightarrow> 'a Status" where
  "status_Convert err =
     (case GRPCStatus err of Some s \<Rightarrow> s | None \<Rightarrow> status_New Unknown (Error err))"

text \<open>
  The loop of \<^verbatim>\<open>ToJSON\<close>: from the head of the chain inwards, every layer that is a
  \<^verbatim>\<open>ProtoMessage\<close> is packed and appended to the details; a packing failure is returned
  at once.
\<close>

function ToJSON_loop :: "('a, 'w) codec \<Rightarrow> err \<Rightarrow> 'a list \<Rightarrow> failure + 'a list" where
  "ToJSON_loop cd from details =
     (case (case as_ProtoMessage from of
              Some msg \<Rightarrow>
                (case anypb_New cd msg of
                   Inl e \<Rightarrow> Inl e
                 | Inr any \<Rightarrow> Inr (details @ [any]))
            | None \<Rightarrow> Inr details) of
        Inl e \<Rightarrow> Inl e
      | Inr details' \<Rightarrow>
          (case errors_Unwrap from of
             None \<Rightarrow> Inr details'
           | Some next \<Rightarrow> ToJSON_loop cd next details'))"
  by pat_completeness auto
termination
  by (relation "measure (\<lambda>(cd, from, details). size from)") (auto elim!: errors_Unwrap.elims)

definition ToJSON :: "('a, 'w) codec \<Rightarrow> err \<Rightarrow> failure + 'w" where
  "ToJSON cd from =
     (let toStatus = (case errors_As statusError from of
                        Some found \<Rightarrow> found
                      | None \<Rightarrow> errCodeError from Unknown);
          p = status_Convert toStatus
      in case ToJSON_loop cd from (Status_Details p) of
           Inl e \<Rightarrow> Inl e
         | Inr details \<Rightarrow>
             protojson_Marshal cd (Status (Status_Code p) (Status_Message p) details))"

section \<open>Deserializing: \<^verbatim>\<open>FromJSON\<close>\<close>

text \<open>
  A \<^verbatim>\<open>DetailsMapper\<close> has the one method \<^verbatim>\<open>Map\<close>, from a message to a \<^verbatim>\<open>Details\<close> that
  may be nil (\<open>None\<close>).
\<close>

type_synonym DetailsMapper = "proto_message \<Rightarrow> Details option"

text \<open>The inner loop over the mappers, in the order they were supplied.\<close>

fun FromJSON_mappers :: "DetailsMapper list \<Rightarrow> proto_message \<Rightarrow> err \<Rightarrow> err" where
  "FromJSON_mappers [] pb sterr = sterr"
| "FromJSON_mappers (mapper # mappers) pb sterr =
     FromJSON_mappers mappers pb
       (case mapper pb of Some wrapper \<Rightarrow> Wrap wrapper sterr | None \<Rightarrow> sterr)"

text \<open>The type switch on the unpacked message.\<close>

fun FromJSON_switch :: "proto_message \<Rightarrow> err \<Rightarrow> err" where
  "FromJSON_switch (M_BadRequest msg) sterr = errBadRequest sterr msg"
| "FromJSON_switch (M_DebugInfo msg) sterr = errDebugInfo sterr msg"
| "FromJSON_switch (M_ErrorInfo msg) sterr = errInfo sterr msg"
| "FromJSON_switch (M_Help msg) sterr = errHelpLink sterr msg"
| "FromJSON_switch (M_LocalizedMessage msg) sterr = localizedError sterr msg"
| "FromJSON_switch (M_PreconditionFailure msg) sterr = errPreconditionFailed sterr msg"
| "FromJSON_switch (M_QuotaFailure msg) sterr = errQuotaFailure sterr msg"
| "FromJSON_switch (M_RequestInfo msg) sterr = errRequestInfo sterr msg"
| "FromJSON_switch (M_ResourceInfo msg) sterr = errResourceInfo sterr msg"
| "FromJSON_switch (M_RetryInfo msg) sterr = errRetryInfo sterr msg"
| "FromJSON_switch (M_Other name content) sterr =
     WithDetails sterr [wrapperFunc (\<lambda>err. arbitraryError err (M_Other name content))]"

text \<open>The loop over the details of the envelope, in list order.\<close>

fun FromJSON_loop ::
  "('a, 'w) codec \<Rightarrow> DetailsMapper list \<Rightarrow> 'a list \<Rightarrow> err \<Rightarrow> failure + err" where
  "FromJSON_loop cd mappers [] sterr = Inr sterr"
| "FromJSON_loop cd mappers (detail # details) sterr =
     (case anypb_UnmarshalNew cd detail of
        Inl e \<Rightarrow> Inl e
      | Inr pb \<Rightarrow>
          FromJSON_loop cd mappers details
            (FromJSON_switch pb (FromJSON_mappers mappers pb sterr)))"

text \<open>
  \<^verbatim>\<open>FromJSON\<close>. The reader either fails or yields its bytes. Go returns one \<^verbatim>\<open>error\<close>
  either way; the model tells a failure to read or decode (\<open>Inl\<close>) from the reconstructed
  error (\<open>Inr\<close>).
\<close>

definition FromJSON ::
  "('a, 'w) codec \<Rightarrow> failure + 'w \<Rightarrow> DetailsMapper list \<Rightarrow> failure + err" where
  "FromJSON cd r mappers =
     (case r of
        Inl e \<Rightarrow> Inl e
      | Inr buf \<Rightarrow>
          (case protojson_Unmarshal cd buf of
             Inl e \<Rightarrow> Inl e
           | Inr s \<Rightarrow>
               (let sterr = New (Status_Code s) (Status_Message s) []
                in FromJSON_loop cd mappers (Status_Details s) sterr)))"

section \<open>Notions used to state the properties\<close>

text \<open>The layers of a chain, outermost first, as \<^verbatim>\<open>errors.Unwrap\<close> visits them.\<close>

function chain :: "err \<Rightarrow> err list" where
  "chain err = err # (case errors_Unwrap err of None \<Rightarrow> [] | Some next \<Rightarrow> chain next)"
  by pat_completeness auto
termination
  by (relation "measure size") (auto elim!: errors_Unwrap.elims)

text \<open>The detail payloads of a chain, outermost first.\<close>

definition details_of :: "err \<Rightarrow> proto_message list" where
  "details_of err = List.map_filter as_ProtoMessage (chain err)"

text \<open>Packing a list of messages one after the other, stopping at the first failure.\<close>

fun pack_all :: "('a, 'w) codec \<Rightarrow> proto_message list \<Rightarrow> failure + 'a list" where
  "pack_all cd [] = Inr []"
| "pack_all cd (m # ms) =
     (case anypb_New cd m of
        Inl e \<Rightarrow> Inl e
      | Inr a \<Rightarrow> (case pack_all cd ms of Inl e \<Rightarrow> Inl e | Inr as \<Rightarrow> Inr (a # as)))"

text \<open>
  The status an error serializes with: the code and the text of its outermost status
  layer, and the unknown code around the whole error when it has none.
\<close>

definition classify :: "err \<Rightarrow> code \<times> string" where
  "classify err =
     (case errors_As statusError err of
        Some found \<Rightarrow>
          (case found of
             errCodeError e c \<Rightarrow> (c, Error found)
           | _ \<Rightarrow> (Unknown, Error found))
      | None \<Rightarrow> (Unknown, Error (errCodeError err Unknown)))"

text \<open>
  What deserializing does with one unpacked detail, in the words of the specification:
  every mapper that yields a wrapper for the payload applies it, in the order the mappers
  were supplied, and then the dispatch on the payload's kind wraps once more.
\<close>

definition replay_detail :: "DetailsMapper list \<Rightarrow> err \<Rightarrow> proto_message \<Rightarrow> err" where
  "replay_detail mappers current pb =
     FromJSON_switch pb (WithDetails current (List.map_filter (\<lambda>mapper. mapper pb) mappers))"

text \<open>
  A wrapper keeps the chain when the error it is given is a layer of the error it
  returns. It adds a detail layer when the error it returns is not a status layer and
  unwraps to the error it was given.
\<close>

definition keeps_chain :: "Details \<Rightarrow> bool" where
  "keeps_chain d \<longleftrightarrow> (\<forall>e. e \<in> set (chain (Wrap d e)))"

definition adds_detail_layer :: "Details \<Rightarrow> bool" where
  "adds_detail_layer d \<longleftrightarrow>
     (\<forall>e. \<not> statusError (Wrap d e) \<and> errors_Unwrap (Wrap d e) = Some e)"

text \<open>The two chains of the package's tests \<^verbatim>\<open>TestHandler\<close> and \<^verbatim>\<open>TestFromJSON\<close>.\<close>

definition scenarioA :: err where
  "scenarioA =
     New InvalidArgument ''test error''
       [Help [HelpLink_pb (rpc_Help_Link ''desc4'' ''url2''),
              HelpLink_pb (rpc_Help_Link ''desc3'' ''url1'')],
        BadRequest [FieldViolation_pb (rpc_BadRequest_FieldViolation ''field1'' ''desc1''),
                    FieldViolation_pb (rpc_BadRequest_FieldViolation ''field2'' ''desc2'')]]"

definition scenarioB :: err where
  "scenarioB =
     New ResourceExhausted ''resend email rate limit exceeded''
       [RetryDelay Minute,
        QuotaFailure [QuotaViolation_pb (rpc_QuotaFailure_Violation ''auth0|123456789''
                        ''Rate limit applied for Resend Email'')]]"

section \<open>Concrete inputs\<close>

text \<open>The envelope of the chain of \<^verbatim>\<open>TestFromJSON\<close>, as the concrete codec writes it.\<close>

definition envelopeB :: "Any Status" where
  "envelopeB = Status 8 ''ResourceExhausted: resend email rate limit exceeded''
       [Any ''type.googleapis.com/google.rpc.QuotaFailure''
         (M_QuotaFailure (rpc_QuotaFailure
             [rpc_QuotaFailure_Violation ''auth0|123456789''
               ''Rate limit applied for Resend Email''])),
        Any ''type.googleapis.com/google.rpc.RetryInfo''
         (M_RetryInfo (rpc_RetryInfo (Some (pb_Duration 60 0))))]"

text \<open>A chain with three detail layers, and its envelope.\<close>

definition three_details :: err where
  "three_details =
     New NotFound ''no such user''
       [RetryDelay Second,
        Help [HelpLink_impl ''https://example.test/'' ''Example link''],
        BadRequest [FieldViolation_impl ''username'' ''username cannot be empty'']]"

definition three_envelope :: "Any Status" where
  "three_envelope = Status 5 ''NotFound: no such user''
     [Any ''type.googleapis.com/google.rpc.BadRequest''
        (M_BadRequest (rpc_BadRequest
           [rpc_BadRequest_FieldViolation ''username'' ''username cannot be empty''])),
      Any ''type.googleapis.com/google.rpc.Help''
        (M_Help (rpc_Help [rpc_Help_Link ''Example link'' ''https://example.test/''])),
      Any ''type.googleapis.com/google.rpc.RetryInfo''
        (M_RetryInfo (rpc_RetryInfo (Some (pb_Duration 1 0))))]"

text \<open>
  Three mappers: one that recognises \<open>BadRequest\<close> payloads, one that recognises \<open>Help\<close>
  payloads, and one that wraps whatever the payload is.
\<close>

definition badRequest_mapper :: DetailsMapper where
  "badRequest_mapper pb =
     (case pb of
        M_BadRequest m \<Rightarrow> Some (BadRequest (map FieldViolation_pb (FieldViolations m)))
      | _ \<Rightarrow> None)"

definition help_mapper :: DetailsMapper where
  "help_mapper pb =
     (case pb of
        M_Help m \<Rightarrow> Some (Help (map HelpLink_pb (Links m)))
      | _ \<Rightarrow> None)"

definition any_mapper :: DetailsMapper where
  "any_mapper pb = Some (Code Unavailable)"

text \<open>An envelope with one \<open>BadRequest\<close> detail.\<close>

definition username_envelope :: "Any Status" where
  "username_envelope =
     Status 3 ''InvalidArgument: bad name''
       [Any ''type.googleapis.com/google.rpc.BadRequest''
          (M_BadRequest (rpc_BadRequest
             [rpc_BadRequest_FieldViolation ''username'' ''username cannot be empty'']))]"

text \<open>An envelope whose first detail is of a type the package does not know.\<close>

definition acme_envelope :: "Any Status" where
  "acme_envelope =
     Status 9 ''FailedPrecondition: not yet''
       [Any ''type.googleapis.com/acme.Ticket'' (M_Other ''acme.Ticket'' ''T-1''),
        Any ''type.googleapis.com/google.rpc.RetryInfo''
          (M_RetryInfo (rpc_RetryInfo (Some (pb_Duration 1 0))))]"


section \<open>Lemmas about the walk along a chain\<close>


declare chain.simps [simp del] errors_As.simps [simp del] errors_Is.simps [simp del] ToJSON_loop.simps [simp del]

lemma chain_root [simp]: "errors_Unwrap e = None \<Longrightarrow> chain e = [e]"
  by (subst chain.simps) simp

lemma chain_layer [simp]: "errors_Unwrap e = Some n \<Longrightarrow> chain e = e # chain n"
  by (subst chain.simps) simp

lemma chain_self: "e \<in> set (chain e)"
  by (subst chain.simps) simp

lemma chain_trans: "e \<in> set (chain e') \<Longrightarrow> set (chain e) \<subseteq> set (chain e')"
proof (induction e' rule: chain.induct)
  case (1 e')
  show ?case
  proof (cases "errors_Unwrap e'")
    case None
    with 1 show ?thesis by auto
  next
    case (Some n)
    with 1 show ?thesis by auto
  qed
qed

lemma errors_As_find: "errors_As P e = List.find P (chain e)"
proof (induction e rule: chain.induct)
  case (1 e)
  show ?case
  proof (cases "errors_Unwrap e")
    case None
    then show ?thesis by (subst errors_As.simps) simp
  next
    case (Some n)
    with 1 show ?thesis by (subst errors_As.simps) simp
  qed
qed

lemma Is_method_code: "Is_method l (errCodeError x c) = Some (\<exists>y. l = errCodeError y c)"
  by (cases l) (auto simp: errCodeError_Is_def arbitraryError_Is_def)

lemma errors_Is_code:
  "errors_Is e (errCodeError x c) = Some (\<exists>l\<in>set (chain e). \<exists>y. l = errCodeError y c)"
proof (induction e rule: chain.induct)
  case (1 e)
  show ?case
  proof (cases "errors_Unwrap e")
    case None
    then show ?thesis
      by (subst errors_Is.simps) (auto simp: Is_method_code or3_def same_pointer_def)
  next
    case (Some n)
    with 1 show ?thesis
      by (subst errors_Is.simps) (auto simp: Is_method_code or3_def same_pointer_def)
  qed
qed

lemma WithDetails_keeps:
  "\<forall>d\<in>set ds. keeps_chain d \<Longrightarrow> e \<in> set (chain (WithDetails e ds))"
proof (induction ds arbitrary: e)
  case Nil
  then show ?case by (simp add: chain_self)
next
  case (Cons d ds)
  then have "Wrap d e \<in> set (chain (WithDetails (Wrap d e) ds))" by simp
  moreover from Cons have "e \<in> set (chain (Wrap d e))" by (simp add: keeps_chain_def)
  ultimately show ?case using chain_trans by fastforce
qed

lemma WithDetails_status:
  "\<forall>d\<in>set ds. adds_detail_layer d \<Longrightarrow>
   errors_As statusError (WithDetails e ds) = errors_As statusError e"
proof (induction ds arbitrary: e)
  case Nil
  then show ?case by simp
next
  case (Cons d ds)
  then have "errors_As statusError (WithDetails (Wrap d e) ds) = errors_As statusError (Wrap d e)"
    by simp
  moreover from Cons have "\<not> statusError (Wrap d e)" "errors_Unwrap (Wrap d e) = Some e"
    by (simp_all add: adds_detail_layer_def)
  ultimately show ?case by (simp add: errors_As_find)
qed

lemma ToJSON_loop_pack:
  "ToJSON_loop cd e acc =
     (case pack_all cd (details_of e) of Inl f \<Rightarrow> Inl f | Inr as \<Rightarrow> Inr (acc @ as))"
proof (induction e arbitrary: acc rule: chain.induct)
  case (1 e)
  show ?case
  proof (cases "errors_Unwrap e")
    case None
    then show ?thesis
      by (subst ToJSON_loop.simps)
        (simp add: details_of_def split: option.splits sum.splits)
  next
    case (Some n)
    with 1 show ?thesis
      by (subst ToJSON_loop.simps)
        (simp add: details_of_def split: option.splits sum.splits)
  qed
qed

lemma errors_As_statusError:
  "errors_As statusError e = Some found \<Longrightarrow> \<exists>x c. found = errCodeError x c"
proof -
  assume "errors_As statusError e = Some found"
  then have "statusError found"
    by (auto simp: errors_As_find find_Some_iff)
  then show ?thesis
    by (cases found) (simp_all add: statusError_def)
qed

lemma ToJSON_classify:
  "ToJSON cd e =
     (case pack_all cd (details_of e) of
        Inl f \<Rightarrow> Inl f
      | Inr as \<Rightarrow> protojson_Marshal cd (Status (fst (classify e)) (snd (classify e)) as))"
proof (cases "errors_As statusError e")
  case None
  then show ?thesis
    by (simp add: ToJSON_def ToJSON_loop_pack classify_def status_Convert_def status_New_def
        Let_def split: sum.splits)
next
  case (Some found)
  then obtain x c where "found = errCodeError x c"
    using errors_As_statusError by blast
  with Some show ?thesis
    by (simp add: ToJSON_def ToJSON_loop_pack classify_def status_Convert_def status_New_def
        Let_def split: sum.splits)
qed

lemma FromJSON_switch_Unwrap [simp]: "errors_Unwrap (FromJSON_switch pb e) = Some e"
  by (cases pb) simp_all

lemma FromJSON_switch_msg [simp]: "as_ProtoMessage (FromJSON_switch pb e) = Some pb"
  by (cases pb) simp_all

lemma FromJSON_switch_Error [simp]: "Error (FromJSON_switch pb e) = Error e"
  by (cases pb) simp_all

lemma details_of_switch [simp]: "details_of (FromJSON_switch pb e) = pb # details_of e"
  by (simp add: details_of_def)

lemma details_of_New [simp]: "details_of (New c m []) = []"
  by (simp add: details_of_def New_def errors_New_def)

lemma pack_all_unpack:
  "lossless cd \<Longrightarrow> pack_all cd ms = Inr as \<Longrightarrow> map (anypb_UnmarshalNew cd) as = map Inr ms"
proof (induction ms arbitrary: as)
  case Nil
  then show ?case by simp
next
  case (Cons m ms)
  then show ?case by (auto simp: lossless_def split: sum.splits)
qed

lemma FromJSON_mappers_WithDetails:
  "FromJSON_mappers mappers pb sterr =
     WithDetails sterr (List.map_filter (\<lambda>mapper. mapper pb) mappers)"
  by (induction mappers arbitrary: sterr) (auto split: option.splits)

lemma FromJSON_loop_foldl:
  "map (anypb_UnmarshalNew cd) as = map Inr pbs \<Longrightarrow>
   FromJSON_loop cd mappers as sterr = Inr (foldl (replay_detail mappers) sterr pbs)"
proof (induction as arbitrary: pbs sterr)
  case Nil
  then show ?case by simp
next
  case (Cons a as)
  then obtain pb pbs' where "pbs = pb # pbs'" by (cases pbs) auto
  with Cons show ?case by (simp add: replay_detail_def FromJSON_mappers_WithDetails)
qed

lemma details_of_replay: "details_of (foldl (replay_detail []) e pbs) = rev pbs @ details_of e"
  by (induction pbs arbitrary: e) (simp_all add: replay_detail_def)

lemma Error_replay: "Error (foldl (replay_detail []) e pbs) = Error e"
  by (induction pbs arbitrary: e) (simp_all add: replay_detail_def)

lemma round_trip:
  assumes "lossless cd" and "ToJSON cd e = Inr w"
  shows "FromJSON cd (Inr w) mappers =
           Inr (foldl (replay_detail mappers) (New (fst (classify e)) (snd (classify e)) [])
                  (details_of e))"
proof -
  from assms(2) obtain as where
    p: "pack_all cd (details_of e) = Inr as" and
    m: "protojson_Marshal cd (Status (fst (classify e)) (snd (classify e)) as) = Inr w"
    by (auto simp: ToJSON_classify split: sum.splits)
  from assms(1) m
  have u: "protojson_Unmarshal cd w = Inr (Status (fst (classify e)) (snd (classify e)) as)"
    by (simp add: lossless_def)
  from assms(1) p have "map (anypb_UnmarshalNew cd) as = map Inr (details_of e)"
    by (rule pack_all_unpack)
  then show ?thesis
    by (simp add: FromJSON_def u FromJSON_loop_foldl)
qed

lemma lossless_plain_codec: "lossless plain_codec"
  by (simp add: lossless_def plain_codec_def)


lemma keeps_chain_Code: "keeps_chain (Code c)"
  by (simp add: keeps_chain_def Code_def chain_self)

lemma keeps_chain_BadRequest: "keeps_chain (BadRequest vs)"
  by (simp add: keeps_chain_def BadRequest_def WithBadRequest_def chain_self)

lemma keeps_chain_Help: "keeps_chain (Help ls)"
  by (simp add: keeps_chain_def Help_def WithHelp_def chain_self)

lemma keeps_chain_QuotaFailure: "keeps_chain (QuotaFailure vs)"
  by (simp add: keeps_chain_def QuotaFailure_def WithQuotaFailure_def chain_self)

lemma keeps_chain_RetryDelay: "keeps_chain (RetryDelay d)"
  by (simp add: keeps_chain_def RetryDelay_def WithRetryDelay_def chain_self)

lemma adds_detail_layer_BadRequest: "adds_detail_layer (BadRequest vs)"
  by (simp add: adds_detail_layer_def BadRequest_def WithBadRequest_def statusError_def)

lemma adds_detail_layer_Help: "adds_detail_layer (Help ls)"
  by (simp add: adds_detail_layer_def Help_def WithHelp_def statusError_def)

lemma adds_detail_layer_QuotaFailure: "adds_detail_layer (QuotaFailure vs)"
  by (simp add: adds_detail_layer_def QuotaFailure_def WithQuotaFailure_def statusError_def)

lemma adds_detail_layer_RetryDelay: "adds_detail_layer (RetryDelay d)"
  by (simp add: adds_detail_layer_def RetryDelay_def WithRetryDelay_def statusError_def)

lemma keeps_chain_PreconditionFailure: "keeps_chain (PreconditionFailure vs)"
  by (simp add: keeps_chain_def PreconditionFailure_def WithPreconditionFailure_def chain_self)

lemma keeps_chain_RequestInfo: "keeps_chain (RequestInfo info)"
  by (simp add: keeps_chain_def RequestInfo_def WithRequestInfo_def chain_self)

lemma keeps_chain_Debug: "keeps_chain (Debug info)"
  by (simp add: keeps_chain_def Debug_def WithDebug_def chain_self)

lemma keeps_chain_Cause: "keeps_chain (Cause info)"
  by (simp add: keeps_chain_def Cause_def WithCause_def chain_self)

lemma keeps_chain_LocalizedMessage: "keeps_chain (LocalizedMessage msg)"
  by (simp add: keeps_chain_def LocalizedMessage_def WithLocalizedMessage_def chain_self)

lemma keeps_chain_Resource: "keeps_chain (Resource info)"
  by (simp add: keeps_chain_def Resource_def WithResource_def chain_self)

lemma adds_detail_layer_PreconditionFailure: "adds_detail_layer (PreconditionFailure vs)"
  by (simp add: adds_detail_layer_def PreconditionFailure_def WithPreconditionFailure_def
      statusError_def)

lemma adds_detail_layer_RequestInfo: "adds_detail_layer (RequestInfo info)"
  by (simp add: adds_detail_layer_def RequestInfo_def WithRequestInfo_def statusError_def)

lemma adds_detail_layer_Debug: "adds_detail_layer (Debug info)"
  by (simp add: adds_detail_layer_def Debug_def WithDebug_def statusError_def)

lemma adds_detail_layer_Cause: "adds_detail_layer (Cause info)"
  by (simp add: adds_detail_layer_def Cause_def WithCause_def statusError_def)

lemma adds_detail_layer_LocalizedMessage: "adds_detail_layer (LocalizedMessage msg)"
  by (simp add: adds_detail_layer_def LocalizedMessage_def WithLocalizedMessage_def
      statusError_def)

lemma adds_detail_layer_Resource: "adds_detail_layer (Resource info)"
  by (simp add: adds_detail_layer_def Resource_def WithResource_def statusError_def)

lemma sentinels_for_code: "s \<in> set (sentinels_for c) \<Longrightarrow> \<exists>x. s = errCodeError x c"
  by (auto simp: sentinels_for_def split: err.splits)

lemmas code_defs = OK_def Canceled_def Unknown_def InvalidArgument_def DeadlineExceeded_def
  NotFound_def AlreadyExists_def PermissionDenied_def ResourceExhausted_def
  FailedPrecondition_def Aborted_def OutOfRange_def Unimplemented_def Internal_def
  Unavailable_def DataLoss_def Unauthenticated_def

lemmas sentinel_defs = ErrCanceled_def ErrUnknown_def ErrInvalidArgument_def
  ErrDeadlineExceeded_def ErrNotFound_def ErrAlreadyExists_def ErrPermissionDenied_def
  ErrResourceExhausted_def ErrFailedPrecondition_def ErrAborted_def ErrOutOfRange_def
  ErrUnimplemented_def ErrInternal_def ErrUnavailable_def ErrDataLoss_def
  ErrUnauthenticated_def

lemma details_of_scenarioA:
  "details_of scenarioA =
     [M_BadRequest (rpc_BadRequest [rpc_BadRequest_FieldViolation ''field1'' ''desc1'',
                                    rpc_BadRequest_FieldViolation ''field2'' ''desc2'']),
      M_Help (rpc_Help [rpc_Help_Link ''desc4'' ''url2'', rpc_Help_Link ''desc3'' ''url1''])]"
  by (simp add: scenarioA_def New_def errors_New_def Help_def BadRequest_def WithHelp_def
      WithBadRequest_def details_of_def)

lemma classify_scenarioA: "classify scenarioA = (3, ''InvalidArgument: test error'')"
  by (simp add: scenarioA_def New_def errors_New_def Help_def BadRequest_def WithHelp_def
      WithBadRequest_def classify_def errors_As_find statusError_def Code_String_def code_defs)

lemma details_of_scenarioB:
  "details_of scenarioB =
     [M_QuotaFailure (rpc_QuotaFailure [rpc_QuotaFailure_Violation ''auth0|123456789''
        ''Rate limit applied for Resend Email'']),
      M_RetryInfo (rpc_RetryInfo (Some (durationpb_New Minute)))]"
  by (simp add: scenarioB_def New_def errors_New_def RetryDelay_def QuotaFailure_def
      WithRetryDelay_def WithQuotaFailure_def details_of_def)

lemma classify_scenarioB:
  "classify scenarioB = (ResourceExhausted, ''ResourceExhausted: resend email rate limit exceeded'')"
  by (simp add: scenarioB_def New_def errors_New_def RetryDelay_def QuotaFailure_def
      WithRetryDelay_def WithQuotaFailure_def classify_def errors_As_find statusError_def
      Code_String_def code_defs)

lemma AsDuration_Minute: "AsDuration (Some (durationpb_New Minute)) = Minute"
  by (simp add: AsDuration_def durationpb_New_def Minute_def Second_def go_div_def Let_def
      signed_divide_int_def)

lemma ToJSON_plain_scenarioB: "ToJSON plain_codec scenarioB = Inr envelopeB"
  by (simp add: ToJSON_classify details_of_scenarioB classify_scenarioB plain_codec_def
      envelopeB_def ResourceExhausted_def durationpb_New_def Minute_def Second_def go_div_def
      signed_divide_int_def)

lemma details_of_three_details:
  "details_of three_details =
     [M_BadRequest (rpc_BadRequest
        [rpc_BadRequest_FieldViolation ''username'' ''username cannot be empty'']),
      M_Help (rpc_Help [rpc_Help_Link ''Example link'' ''https://example.test/'']),
      M_RetryInfo (rpc_RetryInfo (Some (pb_Duration 1 0)))]"
  by (simp add: three_details_def New_def errors_New_def RetryDelay_def Help_def
      BadRequest_def WithRetryDelay_def WithHelp_def WithBadRequest_def details_of_def
      durationpb_New_def Second_def go_div_def signed_divide_int_def)

lemma ToJSON_three_details: "ToJSON plain_codec three_details = Inr three_envelope"
proof -
  have "classify three_details = (5, ''NotFound: no such user'')"
    by (simp add: three_details_def New_def errors_New_def RetryDelay_def Help_def
      BadRequest_def WithRetryDelay_def WithHelp_def WithBadRequest_def classify_def
      errors_As_find statusError_def Code_String_def code_defs)
  then show ?thesis
    by (simp add: ToJSON_classify details_of_three_details plain_codec_def three_envelope_def)
qed

lemma Error_detail_layer:
  "\<not> statusError e' \<Longrightarrow> errors_Unwrap e' = Some e \<Longrightarrow> Error e' = Error e"
  by (cases e') (auto simp: statusError_def)

lemma Error_WithDetails:
  "\<forall>d\<in>set ds. adds_detail_layer d \<Longrightarrow> Error (WithDetails e ds) = Error e"
proof (induction ds arbitrary: e)
  case Nil
  then show ?case by simp
next
  case (Cons d ds)
  then have "Error (WithDetails (Wrap d e) ds) = Error (Wrap d e)" by simp
  moreover from Cons have "Error (Wrap d e) = Error e"
    by (simp add: adds_detail_layer_def Error_detail_layer)
  ultimately show ?case by simp
qed

lemma classify_New:
  assumes "\<forall>d\<in>set ds. adds_detail_layer d"
  shows "classify (New c m ds) = (c, Code_String c @ '': '' @ m)"
proof -
  from assms have "errors_As statusError (New c m ds) =
      errors_As statusError (errCodeError (errors_New m) c)"
    unfolding New_def by (rule WithDetails_status)
  then show ?thesis
    by (simp add: classify_def errors_As_find statusError_def errors_New_def)
qed

lemma Error_New: "Error (New c m []) = Code_String c @ '': '' @ m"
  by (simp add: New_def errors_New_def)

lemma ToJSON_disk_full:
  "ToJSON plain_codec (New Internal ''disk full'' [RetryDelay Second]) =
     Inr (Status 13 ''Internal: disk full''
       [Any ''type.googleapis.com/google.rpc.RetryInfo''
          (M_RetryInfo (rpc_RetryInfo (Some (pb_Duration 1 0))))])"
proof -
  have "classify (New Internal ''disk full'' [RetryDelay Second]) = (13, ''Internal: disk full'')"
    by (simp add: classify_New adds_detail_layer_RetryDelay Code_String_def code_defs)
  moreover have "details_of (New Internal ''disk full'' [RetryDelay Second]) =
      [M_RetryInfo (rpc_RetryInfo (Some (pb_Duration 1 0)))]"
    by (simp add: New_def errors_New_def RetryDelay_def WithRetryDelay_def details_of_def
      durationpb_New_def Second_def go_div_def signed_divide_int_def)
  ultimately show ?thesis
    by (simp add: ToJSON_classify plain_codec_def)
qed

lemma switch_in_chain_replay:
  "pb \<in> set pbs \<Longrightarrow>
   \<exists>parent. FromJSON_switch pb parent \<in> set (chain (foldl (replay_detail []) e pbs))"
proof (induction pbs rule: rev_induct)
  case Nil
  then show ?case by simp
next
  case (snoc x xs)
  let ?inner = "foldl (replay_detail []) e xs"
  have c: "chain (foldl (replay_detail []) e (xs @ [x])) =
      FromJSON_switch x ?inner # chain ?inner"
    by (simp add: replay_detail_def)
  show ?case
  proof (cases "pb = x")
    case True
    with c show ?thesis by auto
  next
    case False
    with snoc obtain parent where "FromJSON_switch pb parent \<in> set (chain ?inner)" by auto
    with c show ?thesis by auto
  qed
qed

section \<open>The properties\<close>

text \<open>
  Claim C7. On a \<open>errBadRequest\<close> layer, \<^verbatim>\<open>WithViolation\<close> with \<open>[v1, v2]\<close> and then with
  \<open>[v3]\<close> leaves \<^verbatim>\<open>GetViolations\<close> returning the layer's earlier items followed by
  \<open>v1\<close>, \<open>v2\<close>, \<open>v3\<close> in that order: on a layer made empty by \<open>WithBadRequest\<close> the
  result is exactly \<open>[v1, v2, v3]\<close>. Nothing is reordered, replaced or dropped as a
  duplicate. An item that is not the message type comes back as the message with the same
  field and description.
\<close>

theorem WithViolation_appends:
  "errBadRequest_GetViolations
     (errBadRequest_WithViolation
        (errBadRequest_WithViolation (errBadRequest e m)
           [FieldViolation_pb x1, FieldViolation_pb x2])
        [FieldViolation_pb x3]) =
   errBadRequest_GetViolations (errBadRequest e m) @
     [FieldViolation_pb x1, FieldViolation_pb x2, FieldViolation_pb x3]
   \<and> errBadRequest_GetViolations
     (errBadRequest_WithViolation
        (errBadRequest_WithViolation (WithBadRequest e [])
           [FieldViolation_pb x1, FieldViolation_pb x2])
        [FieldViolation_pb x3]) =
     [FieldViolation_pb x1, FieldViolation_pb x2, FieldViolation_pb x3]
   \<and> map (\<lambda>v. (FieldViolation_GetField v, FieldViolation_GetDescription v))
       (errBadRequest_GetViolations
          (errBadRequest_WithViolation
             (errBadRequest_WithViolation (errBadRequest e m) [v1, v2]) [v3])) =
     map (\<lambda>v. (FieldViolation_GetField v, FieldViolation_GetDescription v))
       (errBadRequest_GetViolations (errBadRequest e m) @ [v1, v2, v3])"
  by (simp add: WithBadRequest_def split: FieldViolation.splits)

text \<open>
  Claim C5, as stated: a sentinel exists for each of the seventeen status codes. The
  package declares none for \<open>OK\<close>.
\<close>

theorem no_sentinel_for_OK: "OK \<in> set status_codes \<and> sentinels_for OK = []"
  by (simp add: status_codes_def sentinels_for_def sentinels_def sentinel_defs code_defs)

text \<open>
  Claim C5, amended. Of the seventeen status codes, each one other than \<open>OK\<close> has exactly
  one sentinel among the sixteen the package declares, and that sentinel wraps the
  placeholder \<open>errUnknown\<close>.
\<close>

theorem sentinel_for_each_code_but_OK:
  "length status_codes = 17 \<and> length sentinels = 16 \<and>
   (\<forall>c\<in>set status_codes. c \<noteq> OK \<longrightarrow> sentinels_for c = [errCodeError errUnknown c])"
  by (simp add: status_codes_def sentinels_for_def sentinels_def sentinel_defs code_defs)

theorem sentinel_for_each_code_but_OK_witness:
  "Unknown \<in> set status_codes \<and> Unknown \<noteq> OK \<and>
   sentinels_for Unknown = [errCodeError errUnknown Unknown]"
proof -
  have a: "Unknown \<in> set status_codes" by (simp add: status_codes_def)
  have b: "Unknown \<noteq> OK" by (simp add: Unknown_def OK_def)
  from sentinel_for_each_code_but_OK a b
  have "sentinels_for Unknown = [errCodeError errUnknown Unknown]" by blast
  with a b show ?thesis by blast
qed

text \<open>
  Claim C6. For a code \<open>c\<close> that has a sentinel, any message and any wrappers that keep
  the chain, \<^verbatim>\<open>errors.Is\<close> of \<open>New c m details\<close> against the sentinel holds; and the
  \<^verbatim>\<open>Is\<close> method of a code layer accepts a code layer exactly when the two codes are equal,
  whatever the two layers wrap.
\<close>

theorem errors_Is_New_sentinel:
  assumes "\<forall>d\<in>set details. keeps_chain d" and "s \<in> set (sentinels_for c)"
  shows "errors_Is (New c m details) s = Some True \<and>
         (\<forall>e1 c1 e2 c2. Is_method (errCodeError e1 c1) (errCodeError e2 c2) = Some (c1 = c2))"
proof -
  from assms(2) obtain x where s: "s = errCodeError x c"
    using sentinels_for_code by blast
  from assms(1) have "errCodeError (errors_New m) c \<in> set (chain (New c m details))"
    unfolding New_def by (rule WithDetails_keeps)
  then have "errors_Is (New c m details) s = Some True"
    by (auto simp: s errors_Is_code)
  moreover have
    "\<forall>e1 c1 e2 c2. Is_method (errCodeError e1 c1) (errCodeError e2 c2) = Some (c1 = c2)"
    by (auto simp: errCodeError_Is_def)
  ultimately show ?thesis by blast
qed

theorem errors_Is_New_sentinel_witness:
  "keeps_chain (RetryDelay Minute) \<and> keeps_chain (Code Internal) \<and>
   ErrResourceExhausted \<in> set (sentinels_for ResourceExhausted) \<and>
   errors_Is (New ResourceExhausted ''quota'' [RetryDelay Minute, Code Internal])
     ErrResourceExhausted = Some True"
proof -
  have a: "\<forall>d\<in>set [RetryDelay Minute, Code Internal]. keeps_chain d"
    by (simp add: keeps_chain_RetryDelay keeps_chain_Code)
  have b: "ErrResourceExhausted \<in> set (sentinels_for ResourceExhausted)"
    by (simp add: sentinels_for_def sentinels_def sentinel_defs)
  from errors_Is_New_sentinel [OF a b] a b show ?thesis by simp
qed

text \<open>
  Claim C2. Serializing the chain of \<^verbatim>\<open>TestHandler\<close> (code \<open>InvalidArgument\<close>, message
  \<open>test error\<close>, wrapped with the two help links and then with the two field
  violations) hands to the JSON encoder the envelope with code 3, the message
  \<open>InvalidArgument: test error\<close> and exactly two details: the packed \<open>BadRequest\<close> first,
  the packed \<open>Help\<close> second, each with its items in insertion order.
\<close>

theorem ToJSON_scenarioA:
  assumes "anypb_New cd (M_BadRequest (rpc_BadRequest
             [rpc_BadRequest_FieldViolation ''field1'' ''desc1'',
              rpc_BadRequest_FieldViolation ''field2'' ''desc2''])) = Inr badRequest"
    and "anypb_New cd (M_Help (rpc_Help
             [rpc_Help_Link ''desc4'' ''url2'', rpc_Help_Link ''desc3'' ''url1''])) = Inr help"
  shows "ToJSON cd scenarioA =
           protojson_Marshal cd (Status 3 ''InvalidArgument: test error'' [badRequest, help])"
  using assms by (simp add: ToJSON_classify details_of_scenarioA classify_scenarioA)

theorem ToJSON_scenarioA_witness:
  "anypb_New plain_codec (M_BadRequest (rpc_BadRequest
      [rpc_BadRequest_FieldViolation ''field1'' ''desc1'',
       rpc_BadRequest_FieldViolation ''field2'' ''desc2''])) =
     Inr (Any ''type.googleapis.com/google.rpc.BadRequest'' (M_BadRequest (rpc_BadRequest
      [rpc_BadRequest_FieldViolation ''field1'' ''desc1'',
       rpc_BadRequest_FieldViolation ''field2'' ''desc2'']))) \<and>
   anypb_New plain_codec (M_Help (rpc_Help
      [rpc_Help_Link ''desc4'' ''url2'', rpc_Help_Link ''desc3'' ''url1''])) =
     Inr (Any ''type.googleapis.com/google.rpc.Help'' (M_Help (rpc_Help
      [rpc_Help_Link ''desc4'' ''url2'', rpc_Help_Link ''desc3'' ''url1'']))) \<and>
   ToJSON plain_codec scenarioA =
     Inr (Status 3 ''InvalidArgument: test error''
       [Any ''type.googleapis.com/google.rpc.BadRequest'' (M_BadRequest (rpc_BadRequest
          [rpc_BadRequest_FieldViolation ''field1'' ''desc1'',
           rpc_BadRequest_FieldViolation ''field2'' ''desc2''])),
        Any ''type.googleapis.com/google.rpc.Help'' (M_Help (rpc_Help
          [rpc_Help_Link ''desc4'' ''url2'', rpc_Help_Link ''desc3'' ''url1'']))])"
proof -
  let ?b = "M_BadRequest (rpc_BadRequest
      [rpc_BadRequest_FieldViolation ''field1'' ''desc1'',
       rpc_BadRequest_FieldViolation ''field2'' ''desc2''])"
  let ?h = "M_Help (rpc_Help
      [rpc_Help_Link ''desc4'' ''url2'', rpc_Help_Link ''desc3'' ''url1''])"
  have a: "anypb_New plain_codec ?b = Inr (Any ''type.googleapis.com/google.rpc.BadRequest'' ?b)"
    by (simp add: plain_codec_def)
  have b: "anypb_New plain_codec ?h = Inr (Any ''type.googleapis.com/google.rpc.Help'' ?h)"
    by (simp add: plain_codec_def)
  have m: "protojson_Marshal plain_codec = Inr"
    by (simp add: plain_codec_def)
  from ToJSON_scenarioA [OF a b] a b show ?thesis
    by (simp add: m)
qed

text \<open>
  Claim C9. When \<^verbatim>\<open>errors.As\<close> finds no status layer in an error, \<^verbatim>\<open>ToJSON\<close> adds no
  failure of its own: it fails only when a detail cannot be packed, and otherwise returns
  what the JSON encoder returns for the envelope with the code \<open>Unknown\<close>, the text
  \<open>Unknown: \<close> followed by the error's text, and the details of the error. That is the
  serialization of the error wrapped in a new \<open>Unknown\<close> code layer, whose chain is that
  layer followed by the original chain, unchanged.
\<close>

theorem ToJSON_without_status:
  assumes "errors_As statusError from = None"
  shows "ToJSON cd from =
           (case pack_all cd (details_of from) of
              Inl failed \<Rightarrow> Inl failed
            | Inr details \<Rightarrow>
                protojson_Marshal cd (Status Unknown (''Unknown: '' @ Error from) details)) \<and>
         ToJSON cd from = ToJSON cd (errCodeError from Unknown) \<and>
         chain (errCodeError from Unknown) = errCodeError from Unknown # chain from"
proof -
  from assms have c: "classify from = (Unknown, ''Unknown: '' @ Error from)"
    by (simp add: classify_def Code_String_def code_defs)
  have c': "classify (errCodeError from Unknown) = (Unknown, ''Unknown: '' @ Error from)"
    by (simp add: classify_def errors_As_find statusError_def Code_String_def code_defs)
  have d: "details_of (errCodeError from Unknown) = details_of from"
    by (simp add: details_of_def)
  show ?thesis
    by (simp add: ToJSON_classify c c' d split: sum.splits)
qed

theorem ToJSON_without_status_witness:
  "errors_As statusError (WithRetryDelay (errors_New ''boom'') Second) = None \<and>
   ToJSON plain_codec (WithRetryDelay (errors_New ''boom'') Second) =
     Inr (Status 2 ''Unknown: boom''
       [Any ''type.googleapis.com/google.rpc.RetryInfo''
          (M_RetryInfo (rpc_RetryInfo (Some (pb_Duration 1 0))))])"
proof -
  let ?e = "WithRetryDelay (errors_New ''boom'') Second"
  have a: "errors_As statusError ?e = None"
    by (simp add: WithRetryDelay_def errors_New_def statusError_def errors_As_find)
  have b: "pack_all plain_codec (details_of ?e) =
     Inr [Any ''type.googleapis.com/google.rpc.RetryInfo''
            (M_RetryInfo (rpc_RetryInfo (Some (pb_Duration 1 0))))]"
    by (simp add: WithRetryDelay_def errors_New_def details_of_def plain_codec_def
        durationpb_New_def Second_def go_div_def signed_divide_int_def)
  have m: "protojson_Marshal plain_codec = Inr"
    by (simp add: plain_codec_def)
  have e: "Error ?e = ''boom''"
    by (simp add: WithRetryDelay_def errors_New_def)
  from ToJSON_without_status [OF a, of plain_codec] a show ?thesis
    by (simp add: b m e Unknown_def)
qed

text \<open>
  Claim C1. The chain of \<^verbatim>\<open>TestFromJSON\<close> is \<open>New\<close> with the code \<open>ResourceExhausted\<close>, the
  message \<open>resend email rate limit exceeded\<close>, a retry delay of one minute and one quota
  violation. When \<^verbatim>\<open>ToJSON\<close> succeeds on it and the codec loses nothing, \<^verbatim>\<open>FromJSON\<close>
  without mappers returns an error for which \<^verbatim>\<open>errors.Is\<close> against \<open>ErrResourceExhausted\<close>
  holds, in which \<^verbatim>\<open>errors.As\<close> finds a \<^verbatim>\<open>RetriableError\<close> whose delay is exactly one
  minute, and a \<^verbatim>\<open>FailedQuotaError\<close> whose first violation has the subject and the
  description that were given.
\<close>

theorem scenarioB_round_trip:
  assumes "lossless cd" and "ToJSON cd scenarioB = Inr w"
  shows "\<exists>err. FromJSON cd (Inr w) [] = Inr err \<and>
           errors_Is err ErrResourceExhausted = Some True \<and>
           (\<exists>retErr. errors_As RetriableError err = Some retErr \<and>
              GetRetryDelay retErr = Minute) \<and>
           (\<exists>qfErr violation others.
              errors_As FailedQuotaError err = Some qfErr \<and>
              errQuotaFailure_GetViolations qfErr = violation # others \<and>
              QuotaViolation_GetSubject violation = ''auth0|123456789'' \<and>
              QuotaViolation_GetDescription violation = ''Rate limit applied for Resend Email'')"
proof -
  let ?q = "rpc_QuotaFailure [rpc_QuotaFailure_Violation ''auth0|123456789''
        ''Rate limit applied for Resend Email'']"
  let ?r = "rpc_RetryInfo (Some (durationpb_New Minute))"
  let ?err = "errRetryInfo (errQuotaFailure
      (errCodeError (errorString ''ResourceExhausted: resend email rate limit exceeded'')
         ResourceExhausted) ?q) ?r"
  from round_trip [OF assms, of "[]"]
  have "FromJSON cd (Inr w) [] = Inr ?err"
    by (simp add: details_of_scenarioB classify_scenarioB replay_detail_def New_def errors_New_def)
  moreover have "errors_Is ?err ErrResourceExhausted = Some True"
    by (simp add: ErrResourceExhausted_def errors_Is_code)
  moreover have "errors_As RetriableError ?err = Some ?err"
    by (simp add: errors_As_find RetriableError_def)
  moreover have "GetRetryDelay ?err = Minute"
    by (simp add: AsDuration_Minute)
  moreover have "errors_As FailedQuotaError ?err = Some (errQuotaFailure
      (errCodeError (errorString ''ResourceExhausted: resend email rate limit exceeded'')
         ResourceExhausted) ?q)"
    by (simp add: errors_As_find FailedQuotaError_def)
  ultimately show ?thesis by simp
qed

theorem scenarioB_round_trip_witness:
  "lossless plain_codec \<and> ToJSON plain_codec scenarioB = Inr envelopeB \<and>
   (\<exists>err. FromJSON plain_codec (Inr envelopeB) [] = Inr err \<and>
           errors_Is err ErrResourceExhausted = Some True \<and>
           (\<exists>retErr. errors_As RetriableError err = Some retErr \<and>
              GetRetryDelay retErr = Minute) \<and>
           (\<exists>qfErr violation others.
              errors_As FailedQuotaError err = Some qfErr \<and>
              errQuotaFailure_GetViolations qfErr = violation # others \<and>
              QuotaViolation_GetSubject violation = ''auth0|123456789'' \<and>
              QuotaViolation_GetDescription violation = ''Rate limit applied for Resend Email''))"
  using scenarioB_round_trip [OF lossless_plain_codec ToJSON_plain_scenarioB]
    lossless_plain_codec ToJSON_plain_scenarioB
  by blast

text \<open>
  Claim C3. For every chain whose detail payloads are \<open>d1\<close>, \<open>d2\<close>, \<open>d3\<close> from the
  outermost layer inwards, serializing and then deserializing (with a codec that loses
  nothing, and no mappers) yields a chain whose detail payloads are \<open>d3\<close>, \<open>d2\<close>, \<open>d1\<close>
  from the outermost layer inwards: the order in which \<^verbatim>\<open>errors.As\<close> meets them is
  reversed.
\<close>

theorem round_trip_reverses_details:
  assumes "lossless cd" and "ToJSON cd e = Inr w" and "details_of e = [d1, d2, d3]"
  shows "\<exists>e'. FromJSON cd (Inr w) [] = Inr e' \<and> details_of e' = [d3, d2, d1]"
proof -
  let ?base = "New (fst (classify e)) (snd (classify e)) []"
  let ?e' = "foldl (replay_detail []) ?base (details_of e)"
  have "FromJSON cd (Inr w) [] = Inr ?e'"
    using assms(1,2) by (rule round_trip)
  moreover have "details_of ?e' = rev (details_of e) @ details_of ?base"
    by (rule details_of_replay)
  then have "details_of ?e' = [d3, d2, d1]"
    by (simp add: assms(3))
  ultimately show ?thesis by blast
qed

theorem round_trip_reverses_details_witness:
  "lossless plain_codec \<and> ToJSON plain_codec three_details = Inr three_envelope \<and>
   details_of three_details =
     [M_BadRequest (rpc_BadRequest
        [rpc_BadRequest_FieldViolation ''username'' ''username cannot be empty'']),
      M_Help (rpc_Help [rpc_Help_Link ''Example link'' ''https://example.test/'']),
      M_RetryInfo (rpc_RetryInfo (Some (pb_Duration 1 0)))] \<and>
   (\<exists>e'. FromJSON plain_codec (Inr three_envelope) [] = Inr e' \<and>
      details_of e' =
        [M_RetryInfo (rpc_RetryInfo (Some (pb_Duration 1 0))),
         M_Help (rpc_Help [rpc_Help_Link ''Example link'' ''https://example.test/'']),
         M_BadRequest (rpc_BadRequest
           [rpc_BadRequest_FieldViolation ''username'' ''username cannot be empty''])])"
  using round_trip_reverses_details
    [OF lossless_plain_codec ToJSON_three_details details_of_three_details]
    lossless_plain_codec ToJSON_three_details details_of_three_details
  by blast

text \<open>
  Claim C4. \<^verbatim>\<open>FromJSON\<close> replays the details of the envelope in list order, and for each
  one does what \<open>replay_detail\<close> says: every mapper that returns a wrapper for the payload
  wraps the current error, in the order of the mappers, and then the type switch wraps
  the result once more, in a layer that holds the payload. The second stage does not look
  at what the first did: a payload that one mapper recognises and that is of a built-in
  kind gets two layers.
\<close>

theorem FromJSON_mappers_and_switch:
  assumes "protojson_Unmarshal cd buf = Inr (Status c msg details)"
    and "map (anypb_UnmarshalNew cd) details = map Inr pbs"
  shows "FromJSON cd (Inr buf) mappers =
           Inr (foldl (replay_detail mappers) (New c msg []) pbs) \<and>
         (\<forall>current pb.
            errors_Unwrap (replay_detail mappers current pb) =
              Some (WithDetails current (List.map_filter (\<lambda>mapper. mapper pb) mappers)) \<and>
            as_ProtoMessage (replay_detail mappers current pb) = Some pb) \<and>
         (\<forall>mapper wrapper current pb. mapper pb = Some wrapper \<longrightarrow>
            replay_detail [mapper] current pb = FromJSON_switch pb (Wrap wrapper current))"
  using assms by (simp add: FromJSON_def FromJSON_loop_foldl replay_detail_def)

theorem FromJSON_mappers_and_switch_witness:
  "protojson_Unmarshal plain_codec username_envelope =
     Inr (Status 3 ''InvalidArgument: bad name'' (Status_Details username_envelope)) \<and>
   map (anypb_UnmarshalNew plain_codec) (Status_Details username_envelope) =
     map Inr [M_BadRequest (rpc_BadRequest
             [rpc_BadRequest_FieldViolation ''username'' ''username cannot be empty''])] \<and>
   FromJSON plain_codec (Inr username_envelope) [help_mapper, badRequest_mapper, any_mapper] =
     Inr (errBadRequest
            (errCodeError
               (errBadRequest
                  (errCodeError (errorString ''InvalidArgument: bad name'') 3)
                  (rpc_BadRequest
                     [rpc_BadRequest_FieldViolation ''username'' ''username cannot be empty'']))
               Unavailable)
            (rpc_BadRequest
               [rpc_BadRequest_FieldViolation ''username'' ''username cannot be empty'']))"
proof -
  have a: "protojson_Unmarshal plain_codec username_envelope =
     Inr (Status 3 ''InvalidArgument: bad name'' (Status_Details username_envelope))"
    by (simp add: plain_codec_def username_envelope_def)
  have b: "map (anypb_UnmarshalNew plain_codec) (Status_Details username_envelope) =
     map Inr [M_BadRequest (rpc_BadRequest
             [rpc_BadRequest_FieldViolation ''username'' ''username cannot be empty''])]"
    by (simp add: plain_codec_def username_envelope_def)
  from FromJSON_mappers_and_switch [OF a b, of "[help_mapper, badRequest_mapper, any_mapper]"]
  have "FromJSON plain_codec (Inr username_envelope) [help_mapper, badRequest_mapper, any_mapper] =
      Inr (foldl (replay_detail [help_mapper, badRequest_mapper, any_mapper])
             (New 3 ''InvalidArgument: bad name'' [])
             [M_BadRequest (rpc_BadRequest
               [rpc_BadRequest_FieldViolation ''username'' ''username cannot be empty''])])"
    by blast
  then have "FromJSON plain_codec (Inr username_envelope) [help_mapper, badRequest_mapper, any_mapper] =
     Inr (errBadRequest
            (errCodeError
               (errBadRequest
                  (errCodeError (errorString ''InvalidArgument: bad name'') 3)
                  (rpc_BadRequest
                     [rpc_BadRequest_FieldViolation ''username'' ''username cannot be empty'']))
               Unavailable)
            (rpc_BadRequest
               [rpc_BadRequest_FieldViolation ''username'' ''username cannot be empty'']))"
    by (simp add: replay_detail_def help_mapper_def badRequest_mapper_def any_mapper_def
        New_def errors_New_def BadRequest_def WithBadRequest_def Code_def)
  with a b show ?thesis by blast
qed

text \<open>
  Claim C8. A detail that unpacks to a message of no built-in kind is not an error. The
  loop goes on with the error wrapped in an \<open>arbitraryError\<close> that holds the message as
  it was unpacked; and \<^verbatim>\<open>FromJSON\<close> (here without mappers) returns a chain that has such a
  layer and whose detail payloads are all the payloads of the envelope, none dropped.
\<close>

theorem FromJSON_keeps_unrecognized_detail:
  assumes "protojson_Unmarshal cd buf = Inr (Status c msg details)"
    and "map (anypb_UnmarshalNew cd) details = map Inr pbs"
    and "M_Other name content \<in> set pbs"
  shows "(\<exists>err. FromJSON cd (Inr buf) [] = Inr err \<and> details_of err = rev pbs \<and>
            (\<exists>parent. arbitraryError parent (M_Other name content) \<in> set (chain err))) \<and>
         (\<forall>mappers detail rest sterr.
            anypb_UnmarshalNew cd detail = Inr (M_Other name content) \<longrightarrow>
            FromJSON_loop cd mappers (detail # rest) sterr =
              FromJSON_loop cd mappers rest
                (arbitraryError (FromJSON_mappers mappers (M_Other name content) sterr)
                   (M_Other name content)))"
proof -
  let ?err = "foldl (replay_detail []) (New c msg []) pbs"
  have "FromJSON cd (Inr buf) [] = Inr ?err"
    using assms(1,2) by (simp add: FromJSON_def FromJSON_loop_foldl)
  moreover have "details_of ?err = rev pbs"
    by (simp add: details_of_replay)
  moreover from assms(3) obtain parent where
    "FromJSON_switch (M_Other name content) parent \<in> set (chain ?err)"
    using switch_in_chain_replay by blast
  then have "\<exists>parent. arbitraryError parent (M_Other name content) \<in> set (chain ?err)"
    by auto
  ultimately show ?thesis by auto
qed

theorem FromJSON_keeps_unrecognized_detail_witness:
  "protojson_Unmarshal plain_codec acme_envelope =
     Inr (Status 9 ''FailedPrecondition: not yet'' (Status_Details acme_envelope)) \<and>
   map (anypb_UnmarshalNew plain_codec) (Status_Details acme_envelope) =
     map Inr [M_Other ''acme.Ticket'' ''T-1'',
              M_RetryInfo (rpc_RetryInfo (Some (pb_Duration 1 0)))] \<and>
   (\<exists>err. FromJSON plain_codec (Inr acme_envelope) [] = Inr err \<and>
      details_of err = [M_RetryInfo (rpc_RetryInfo (Some (pb_Duration 1 0))),
                        M_Other ''acme.Ticket'' ''T-1''] \<and>
      (\<exists>parent. arbitraryError parent (M_Other ''acme.Ticket'' ''T-1'') \<in> set (chain err)))"
proof -
  have a: "protojson_Unmarshal plain_codec acme_envelope =
     Inr (Status 9 ''FailedPrecondition: not yet'' (Status_Details acme_envelope))"
    by (simp add: plain_codec_def acme_envelope_def)
  have b: "map (anypb_UnmarshalNew plain_codec) (Status_Details acme_envelope) =
     map Inr [M_Other ''acme.Ticket'' ''T-1'',
              M_RetryInfo (rpc_RetryInfo (Some (pb_Duration 1 0)))]"
    by (simp add: plain_codec_def acme_envelope_def)
  have c: "M_Other ''acme.Ticket'' ''T-1'' \<in>
     set [M_Other ''acme.Ticket'' ''T-1'', M_RetryInfo (rpc_RetryInfo (Some (pb_Duration 1 0)))]"
    by simp
  from FromJSON_keeps_unrecognized_detail [OF a b c] a b show ?thesis by simp
qed

text \<open>
  Claim C10. The text of \<open>New c m\<close>, under any wrappers that add detail layers, is the
  code's name, a colon and \<open>m\<close>. After serializing and deserializing, the text of the
  error is the code's name twice: \<^verbatim>\<open>FromJSON\<close> builds its code layer around the
  envelope's message, which already starts with the name.
\<close>

theorem round_trip_repeats_code_name:
  assumes "lossless cd" and "\<forall>d\<in>set details. adds_detail_layer d"
    and "ToJSON cd (New c m details) = Inr w"
  shows "Error (New c m details) = Code_String c @ '': '' @ m \<and>
         (\<exists>err. FromJSON cd (Inr w) [] = Inr err \<and>
            Error err = Code_String c @ '': '' @ Code_String c @ '': '' @ m)"
proof -
  let ?e = "New c m details"
  let ?base = "New (fst (classify ?e)) (snd (classify ?e)) []"
  let ?err = "foldl (replay_detail []) ?base (details_of ?e)"
  have "Error ?e = Code_String c @ '': '' @ m"
    using assms(2) by (simp add: New_def Error_WithDetails errors_New_def)
  moreover have "FromJSON cd (Inr w) [] = Inr ?err"
    using assms(1,3) by (rule round_trip)
  moreover have "Error ?err = Error ?base"
    by (rule Error_replay)
  then have "Error ?err = Code_String c @ '': '' @ Code_String c @ '': '' @ m"
    by (simp add: classify_New [OF assms(2)] Error_New)
  ultimately show ?thesis by blast
qed

theorem round_trip_repeats_code_name_witness:
  "lossless plain_codec \<and> adds_detail_layer (RetryDelay Second) \<and>
   ToJSON plain_codec (New Internal ''disk full'' [RetryDelay Second]) =
     Inr (Status 13 ''Internal: disk full''
       [Any ''type.googleapis.com/google.rpc.RetryInfo''
          (M_RetryInfo (rpc_RetryInfo (Some (pb_Duration 1 0))))]) \<and>
   Error (New Internal ''disk full'' [RetryDelay Second]) = ''Internal: disk full'' \<and>
   (\<exists>err. FromJSON plain_codec (Inr (Status 13 ''Internal: disk full''
       [Any ''type.googleapis.com/google.rpc.RetryInfo''
          (M_RetryInfo (rpc_RetryInfo (Some (pb_Duration 1 0))))])) [] = Inr err \<and>
      Error err = ''Internal: Internal: disk full'')"
proof -
  have a: "\<forall>d\<in>set [RetryDelay Second]. adds_detail_layer d"
    by (simp add: adds_detail_layer_RetryDelay)
  have n: "Code_String Internal = ''Internal''"
    by (simp add: Code_String_def code_defs)
  from round_trip_repeats_code_name [OF lossless_plain_codec a ToJSON_disk_full]
    lossless_plain_codec a ToJSON_disk_full
  show ?thesis by (simp add: n)
qed

end
